theory Spec2Isabelle
  imports Main
begin

section \<open>Python values, exceptions and the event trace\<close>

text \<open>
  The orchestrator in \<^verbatim>\<open>pypit/calibrations.py\<close> is dynamically typed: an attribute
  holds \<^verbatim>\<open>None\<close>, a settings dictionary, an image, a boolean mask or a handle of a
  builder object. One datatype covers the values the class touches.
  \<^item> \<open>PyDict\<close> is a dictionary with string keys, kept as an association list.
  \<^item> \<open>NdArray shape data\<close> is a numeric array; the class reads only its shape.
  \<^item> \<open>BoolArr\<close> is a one-dimensional boolean array (the slit mask).
  \<^item> \<open>PyObj cls ident\<close> is an instance of a collaborator class.
\<close>

datatype pyval =
    PyNone
  | PyBool bool
  | PyNum int
  | PyStr string
  | PyTuple "pyval list"
  | PyDict "(string \<times> pyval) list"
  | NdArray "nat list" "int list"
  | BoolArr "bool list"
  | PyObj string nat

datatype exc =
    PypitError string
  | AttributeError string
  | KeyError pyval
  | TypeError
  | ValueError
  | IndexError
  | BuildError string

text \<open>
  What the outside world can observe of a run: the messages handed to the logger
  \<^verbatim>\<open>msgs\<close> and the calls made to collaborators (builder classes and helper
  modules), each with its arguments.
\<close>

datatype event =
    Work string
  | Info string
  | Warn string
  | Error string
  | Call string "pyval list"

section \<open>The settings tree: \<^verbatim>\<open>NestedDict\<close> of \<^verbatim>\<open>arparse.py\<close>\<close>

text \<open>
  A \<^verbatim>\<open>NestedDict\<close> maps keys to plain values or to further \<^verbatim>\<open>NestedDict\<close>s.
  The dictionary is an association list in insertion order.
\<close>

datatype 'k nested = Plain pyval | Nested "('k \<times> 'k nested) list"

datatype 'k lookup_error = NoKey 'k

text \<open>\<^verbatim>\<open>dict.__getitem__(self, item)\<close>: raises \<^verbatim>\<open>KeyError\<close> when the key is absent.\<close>

definition dict_getitem ::
  "('k \<times> 'k nested) list \<Rightarrow> 'k \<Rightarrow> 'k lookup_error + 'k nested" where
  "dict_getitem d item =
     (case map_of d item of None \<Rightarrow> Inl (NoKey item) | Some v \<Rightarrow> Inr v)"

text \<open>\<^verbatim>\<open>self[item] = value\<close>: \<^verbatim>\<open>dict.__setitem__\<close>, which the class does not override.\<close>

definition dict_setitem ::
  "('k \<times> 'k nested) list \<Rightarrow> 'k \<Rightarrow> 'k nested \<Rightarrow> ('k \<times> 'k nested) list" where
  "dict_setitem d item v =
     (if item \<in> fst ` set d then map (\<lambda>(k, w). if k = item then (k, v) else (k, w)) d
      else d @ [(item, v)])"

text \<open>
  \<^verbatim>\<open>NestedDict.__getitem__\<close>: the \<^verbatim>\<open>try\<close> returns the stored value; the
  \<^verbatim>\<open>except KeyError\<close> branch stores \<^verbatim>\<open>type(self)()\<close>, an empty
  \<^verbatim>\<open>NestedDict\<close>, under the key and returns it. The result is the value read and the
  dictionary after the read.
\<close>

definition nested_getitem ::
  "('k \<times> 'k nested) list \<Rightarrow> 'k \<Rightarrow> 'k lookup_error + ('k nested \<times> ('k \<times> 'k nested) list)" where
  "nested_getitem d item =
     (case dict_getitem d item of
        Inr v \<Rightarrow> Inr (v, d)
      | Inl (NoKey _) \<Rightarrow> Inr (Nested [], dict_setitem d item (Nested [])))"

section \<open>The slit mask\<close>

text \<open>
  \<^verbatim>\<open>np.zeros(nslits, dtype=bool)\<close> and the in-place \<^verbatim>\<open>self.maskslits += mask\<close> on
  one-dimensional boolean arrays. NumPy adds booleans as logical or. The right operand
  is broadcast to the shape of the left one: equal lengths combine position by position,
  a right operand of length one is applied to every position, and any other pair of
  lengths raises \<^verbatim>\<open>ValueError\<close>.
\<close>

definition np_zeros :: "nat \<Rightarrow> bool list" where
  "np_zeros n = replicate n False"

definition np_iadd :: "bool list \<Rightarrow> bool list \<Rightarrow> exc + bool list" where
  "np_iadd existing incoming =
     (if length incoming = length existing then Inr (map2 (\<or>) existing incoming)
      else if length incoming = 1 then Inr (map (\<lambda>b. b \<or> hd incoming) existing)
      else Inl ValueError)"

section \<open>Helpers on Python values\<close>

text \<open>
  \<^verbatim>\<open>d[key]\<close> on a plain dictionary (\<^verbatim>\<open>set\<close> keeps \<^verbatim>\<open>settings.copy()\<close>, and
  \<^verbatim>\<open>dict.copy\<close> returns a plain \<^verbatim>\<open>dict\<close>): a missing key raises \<^verbatim>\<open>KeyError\<close>,
  a value that is no dictionary cannot be indexed by a string.
\<close>

definition getitem :: "pyval \<Rightarrow> string \<Rightarrow> exc + pyval" where
  "getitem d key =
     (case d of
        PyDict kvs \<Rightarrow>
          (case map_of kvs key of None \<Rightarrow> Inl (KeyError (PyStr key)) | Some v \<Rightarrow> Inr v)
      | _ \<Rightarrow> Inl TypeError)"

fun getpath :: "pyval \<Rightarrow> string list \<Rightarrow> exc + pyval" where
  "getpath d [] = Inr d"
| "getpath d (key # keys) =
     (case getitem d key of Inl e \<Rightarrow> Inl e | Inr v \<Rightarrow> getpath v keys)"

text \<open>\<^verbatim>\<open>d[key] = v\<close> on a dictionary.\<close>

definition setitem :: "pyval \<Rightarrow> string \<Rightarrow> pyval \<Rightarrow> exc + pyval" where
  "setitem d key v =
     (case d of
        PyDict kvs \<Rightarrow>
          Inr (PyDict (if key \<in> fst ` set kvs
                       then map (\<lambda>(k, w). if k = key then (k, v) else (k, w)) kvs
                       else kvs @ [(key, v)]))
      | _ \<Rightarrow> Inl TypeError)"

text \<open>\<^verbatim>\<open>x.copy()\<close>: dictionaries and arrays have the method; values are immutable here,
  so the copy is the value.\<close>

definition copy_val :: "pyval \<Rightarrow> exc + pyval" where
  "copy_val v =
     (case v of
        PyDict kvs \<Rightarrow> Inr v
      | NdArray sh d \<Rightarrow> Inr v
      | BoolArr bs \<Rightarrow> Inr v
      | _ \<Rightarrow> Inl (AttributeError ''copy''))"

text \<open>\<^verbatim>\<open>x.shape\<close>, as a tuple of integers.\<close>

definition shape :: "pyval \<Rightarrow> exc + nat list" where
  "shape v =
     (case v of
        NdArray sh d \<Rightarrow> Inr sh
      | BoolArr bs \<Rightarrow> Inr [length bs]
      | _ \<Rightarrow> Inl (AttributeError ''shape''))"

definition shape_val :: "nat list \<Rightarrow> pyval" where
  "shape_val sh = PyTuple (map (\<lambda>n. PyNum (int n)) sh)"

text \<open>\<^verbatim>\<open>t[i]\<close> on a tuple of integers.\<close>

definition index :: "nat list \<Rightarrow> nat \<Rightarrow> exc + nat" where
  "index sh i = (if i < length sh then Inr (sh ! i) else Inl IndexError)"

text \<open>Truth value of an object in an \<^verbatim>\<open>if\<close>.\<close>

definition truthy :: "pyval \<Rightarrow> exc + bool" where
  "truthy v =
     (case v of
        PyNone \<Rightarrow> Inr False
      | PyBool b \<Rightarrow> Inr b
      | PyNum n \<Rightarrow> Inr (n \<noteq> 0)
      | PyStr s \<Rightarrow> Inr (s \<noteq> [])
      | PyTuple xs \<Rightarrow> Inr (xs \<noteq> [])
      | PyDict kvs \<Rightarrow> Inr (kvs \<noteq> [])
      | NdArray sh d \<Rightarrow>
          (case d of [] \<Rightarrow> Inr False | [x] \<Rightarrow> Inr (x \<noteq> 0) | _ \<Rightarrow> Inl ValueError)
      | BoolArr bs \<Rightarrow>
          (case bs of [] \<Rightarrow> Inr False | [b] \<Rightarrow> Inr b | _ \<Rightarrow> Inl ValueError)
      | PyObj c i \<Rightarrow> Inr True)"

text \<open>\<^verbatim>\<open>"{:s}".format(x)\<close>: only a string accepts the format code \<^verbatim>\<open>s\<close>.\<close>

definition fmt_s :: "pyval \<Rightarrow> exc + string" where
  "fmt_s v =
     (case v of
        PyStr s \<Rightarrow> Inr s
      | PyBool b \<Rightarrow> Inl ValueError
      | PyNum n \<Rightarrow> Inl ValueError
      | _ \<Rightarrow> Inl TypeError)"

text \<open>Splitting the data of an array along its first axis, for iteration.\<close>

fun chunks :: "nat \<Rightarrow> nat \<Rightarrow> int list \<Rightarrow> int list list" where
  "chunks 0 w d = []"
| "chunks (Suc n) w d = take w d # chunks n w (drop w d)"

text \<open>
  \<^verbatim>\<open>a, b = x\<close> and \<^verbatim>\<open>a, b, c = x\<close>: the items of \<open>x\<close> when it is iterable and has
  the expected number of items.
\<close>

definition iterate :: "pyval \<Rightarrow> exc + pyval list" where
  "iterate v =
     (case v of
        PyTuple xs \<Rightarrow> Inr xs
      | PyStr s \<Rightarrow> Inr (map (\<lambda>c. PyStr [c]) s)
      | PyDict kvs \<Rightarrow> Inr (map (\<lambda>(k, w). PyStr k) kvs)
      | BoolArr bs \<Rightarrow> Inr (map PyBool bs)
      | NdArray sh d \<Rightarrow>
          (case sh of
             [] \<Rightarrow> Inl TypeError
           | [n] \<Rightarrow> Inr (map PyNum (take n d))
           | n # rest \<Rightarrow> Inr (map (NdArray rest) (chunks n (prod_list rest) d)))
      | _ \<Rightarrow> Inl TypeError)"

definition unpack :: "nat \<Rightarrow> pyval \<Rightarrow> exc + pyval list" where
  "unpack n v =
     (case iterate v of
        Inl e \<Rightarrow> Inl e
      | Inr xs \<Rightarrow> if length xs = n then Inr xs else Inl ValueError)"

text \<open>
  \<^verbatim>\<open>np.zeros_like(mask, dtype=bool)\<close> and \<^verbatim>\<open>np.ones_like(image)\<close>. The class holds
  in \<^verbatim>\<open>maskslits\<close> either \<^verbatim>\<open>None\<close> or a one-dimensional boolean array; for
  \<^verbatim>\<open>None\<close> NumPy makes a zero-dimensional array, which behaves as a scalar.
\<close>

definition np_zeros_like :: "pyval \<Rightarrow> pyval" where
  "np_zeros_like v =
     (case v of BoolArr bs \<Rightarrow> BoolArr (np_zeros (length bs)) | _ \<Rightarrow> PyBool False)"

definition np_ones_like :: "pyval \<Rightarrow> pyval" where
  "np_ones_like v =
     (case v of
        NdArray sh d \<Rightarrow> NdArray sh (replicate (length d) 1)
      | BoolArr bs \<Rightarrow> BoolArr (replicate (length bs) True)
      | _ \<Rightarrow> NdArray [] [1])"

text \<open>
  \<^verbatim>\<open>existing += incoming\<close> as the class uses it, on the mask attribute. A boolean
  scalar on the right is broadcast like an array of length one; \<^verbatim>\<open>None\<close> or a value
  that is no boolean array on either side is a \<^verbatim>\<open>TypeError\<close>.
\<close>

definition iadd :: "pyval \<Rightarrow> pyval \<Rightarrow> exc + pyval" where
  "iadd existing incoming =
     (case existing of
        BoolArr m \<Rightarrow>
          (case incoming of
             BoolArr w \<Rightarrow> (case np_iadd m w of Inl e \<Rightarrow> Inl e | Inr r \<Rightarrow> Inr (BoolArr r))
           | PyBool b \<Rightarrow> (case np_iadd m [b] of Inl e \<Rightarrow> Inl e | Inr r \<Rightarrow> Inr (BoolArr r))
           | _ \<Rightarrow> Inl TypeError)
      | _ \<Rightarrow> Inl TypeError)"

text \<open>
  \<^verbatim>\<open>a * b\<close> on numeric settings (booleans count as integers); anything else is taken
  as a \<^verbatim>\<open>TypeError\<close>.
\<close>

definition py_mul :: "pyval \<Rightarrow> pyval \<Rightarrow> exc + pyval" where
  "py_mul a b =
     (case (a, b) of
        (PyNum x, PyNum y) \<Rightarrow> Inr (PyNum (x * y))
      | (PyNum x, PyBool y) \<Rightarrow> Inr (PyNum (x * (if y then 1 else 0)))
      | (PyBool x, PyNum y) \<Rightarrow> Inr (PyNum ((if x then 1 else 0) * y))
      | (PyBool x, PyBool y) \<Rightarrow> Inr (PyNum ((if x then 1 else 0) * (if y then 1 else 0)))
      | _ \<Rightarrow> Inl TypeError)"

section \<open>The \<^verbatim>\<open>Calibrations\<close> object and its effects\<close>

text \<open>
  One row of the exposure table \<^verbatim>\<open>fitstbl\<close>, with the columns the class reads.
\<close>

record fitsrow =
  instrume :: string
  row_sci_ID :: int
  science :: bool
  binning :: pyval

text \<open>
  The object. \<open>attrs\<close> is the instance dictionary: an attribute that was never assigned
  is absent from it, and reading it raises \<^verbatim>\<open>AttributeError\<close>; an attribute set to
  \<^verbatim>\<open>None\<close> holds \<open>PyNone\<close>. \<^verbatim>\<open>calib_dict\<close> maps a setup to its bucket, a
  dictionary from artifact names to artifacts; \<^verbatim>\<open>fitstbl\<close> is the exposure table.
  \<open>trace\<close> is no attribute: it records, in order, the logger messages and collaborator
  calls the object has made.
\<close>

record calibrations =
  fitstbl :: "fitsrow list"
  calib_dict :: "string \<rightharpoonup> (string \<rightharpoonup> pyval)"
  attrs :: "string \<rightharpoonup> pyval"
  trace :: "event list"

text \<open>
  A method either returns a value or raises; in both cases the object keeps the
  assignments made so far.
\<close>

datatype 'a outcome = Return 'a | Raise exc

type_synonym 'a action = "calibrations \<Rightarrow> 'a outcome \<times> calibrations"

definition ret :: "'a \<Rightarrow> 'a action" where
  "ret a s = (Return a, s)"

definition raise :: "exc \<Rightarrow> 'a action" where
  "raise e s = (Raise e, s)"

definition seq :: "'a action \<Rightarrow> ('a \<Rightarrow> 'b action) \<Rightarrow> 'b action" where
  "seq m f s = (case m s of (Return a, s') \<Rightarrow> f a s' | (Raise e, s') \<Rightarrow> (Raise e, s'))"

definition lift :: "exc + 'a \<Rightarrow> 'a action" where
  "lift r s = (case r of Inl e \<Rightarrow> (Raise e, s) | Inr a \<Rightarrow> (Return a, s))"

definition emit :: "event \<Rightarrow> unit action" where
  "emit ev s = (Return (), s\<lparr>trace := trace s @ [ev]\<rparr>)"

text \<open>\<^verbatim>\<open>self.name\<close> and \<^verbatim>\<open>self.name = v\<close>.\<close>

definition getattr :: "string \<Rightarrow> pyval action" where
  "getattr name s =
     (case attrs s name of
        None \<Rightarrow> (Raise (AttributeError name), s)
      | Some v \<Rightarrow> (Return v, s))"

definition setattr :: "string \<Rightarrow> pyval \<Rightarrow> unit action" where
  "setattr name v s = (Return (), s\<lparr>attrs := (attrs s)(name \<mapsto> v)\<rparr>)"

text \<open>
  The collaborators (builder classes, \<^verbatim>\<open>arsort\<close>, \<^verbatim>\<open>armasters\<close>,
  \<^verbatim>\<open>arpixels\<close>) are outside the class. A world answers a call, named by class and
  method, with a value or an exception; the answer may depend on everything the object
  has done before (files saved, builder objects changed), which is the trace.
\<close>

type_synonym world = "event list \<Rightarrow> string \<Rightarrow> pyval list \<Rightarrow> exc + pyval"

definition call :: "world \<Rightarrow> string \<Rightarrow> pyval list \<Rightarrow> pyval action" where
  "call W name args s =
     (case W (trace s) name args of
        Inl e \<Rightarrow> (Raise e, s\<lparr>trace := trace s @ [Call name args]\<rparr>)
      | Inr v \<Rightarrow> (Return v, s\<lparr>trace := trace s @ [Call name args]\<rparr>))"

text \<open>
  The logger. Modelled from the spec: \<^verbatim>\<open>msgs.error\<close> (module \<^verbatim>\<open>armsgs\<close>, absent
  from the sources) is fatal and surfaces immediately: it reports the message and does
  not return. \<^verbatim>\<open>work\<close>, \<^verbatim>\<open>info\<close> and \<^verbatim>\<open>warn\<close> report and return.
\<close>

definition msgs_work :: "string \<Rightarrow> unit action" where
  "msgs_work m = emit (Work m)"

definition msgs_info :: "string \<Rightarrow> unit action" where
  "msgs_info m = emit (Info m)"

definition msgs_warn :: "string \<Rightarrow> unit action" where
  "msgs_warn m = emit (Warn m)"

definition msgs_error :: "string \<Rightarrow> 'a action" where
  "msgs_error m = seq (emit (Error m)) (\<lambda>_. raise (PypitError m))"

text \<open>The exposure table as the value handed to collaborators.\<close>

definition table_val :: "fitsrow list \<Rightarrow> pyval" where
  "table_val rows =
     PyTuple (map (\<lambda>r. PyDict [(''instrume'', PyStr (instrume r)),
                               (''sci_ID'', PyNum (row_sci_ID r)),
                               (''science'', PyBool (science r)),
                               (''binning'', binning r)]) rows)"

definition get_fitstbl :: "pyval action" where
  "get_fitstbl s = (Return (table_val (fitstbl s)), s)"

text \<open>\<^verbatim>\<open>self.fitstbl['instrume'][0]\<close>.\<close>

definition instrume0 :: "pyval action" where
  "instrume0 s =
     (case fitstbl s of
        [] \<Rightarrow> (Raise IndexError, s)
      | r # _ \<Rightarrow> (Return (PyStr (instrume r)), s))"

text \<open>
  \<^verbatim>\<open>np.where((fitstbl['sci_ID'] == sci_ID) & fitstbl['science'])[0][0]\<close>: the first
  science row of the exposure group, \<^verbatim>\<open>IndexError\<close> when there is none; then
  \<^verbatim>\<open>fitstbl['binning'][scidx]\<close>.
\<close>

definition scidx_binning :: "pyval \<Rightarrow> pyval action" where
  "scidx_binning sci s =
     (case filter (\<lambda>r. PyNum (row_sci_ID r) = sci \<and> science r) (fitstbl s) of
        [] \<Rightarrow> (Raise IndexError, s)
      | r # _ \<Rightarrow> (Return (binning r), s))"

text \<open>
  \<^verbatim>\<open>self.calib_dict[self.setup]\<close>: the bucket of the active setup. \<^verbatim>\<open>set\<close> only
  ever creates buckets under strings, so any other key is missing; a dictionary or an
  array cannot be a key at all.
\<close>

definition bucket :: "(string \<rightharpoonup> pyval) action" where
  "bucket =
     seq (getattr ''setup'') (\<lambda>k. \<lambda>s.
       case k of
         PyStr name \<Rightarrow>
           (case calib_dict s name of
              None \<Rightarrow> (Raise (KeyError k), s)
            | Some b \<Rightarrow> (Return b, s))
       | PyDict kvs \<Rightarrow> (Raise TypeError, s)
       | NdArray sh d \<Rightarrow> (Raise TypeError, s)
       | BoolArr bs \<Rightarrow> (Raise TypeError, s)
       | _ \<Rightarrow> (Raise (KeyError k), s))"

text \<open>\<^verbatim>\<open>tag in self.calib_dict[self.setup].keys()\<close>.\<close>

definition in_bucket :: "string \<Rightarrow> bool action" where
  "in_bucket tag = seq bucket (\<lambda>b. ret (b tag \<noteq> None))"

text \<open>\<^verbatim>\<open>self.calib_dict[self.setup][tag]\<close>.\<close>

definition cached :: "string \<Rightarrow> pyval action" where
  "cached tag =
     seq bucket (\<lambda>b.
       case b tag of None \<Rightarrow> raise (KeyError (PyStr tag)) | Some v \<Rightarrow> ret v)"

text \<open>\<^verbatim>\<open>self.calib_dict[self.setup][tag] = v\<close>.\<close>

definition store :: "string \<Rightarrow> pyval \<Rightarrow> unit action" where
  "store tag v =
     seq bucket (\<lambda>b.
     seq (getattr ''setup'') (\<lambda>k. \<lambda>s.
       case k of
         PyStr name \<Rightarrow> (Return (), s\<lparr>calib_dict := (calib_dict s)(name \<mapsto> b(tag \<mapsto> v))\<rparr>)
       | _ \<Rightarrow> (Raise (KeyError k), s)))"

text \<open>\<^verbatim>\<open>self.settings[k1][k2]...\<close>.\<close>

definition setting :: "string list \<Rightarrow> pyval action" where
  "setting keys = seq (getattr ''settings'') (\<lambda>st. lift (getpath st keys))"

section \<open>Construction and configuration\<close>

text \<open>\<^verbatim>\<open>Calibrations.__init__(fitstbl)\<close>.\<close>

definition init :: "fitsrow list \<Rightarrow> exc + calibrations" where
  "init tbl =
     (case tbl of
        [] \<Rightarrow> Inl IndexError
      | r # _ \<Rightarrow>
          Inr \<lparr>fitstbl = tbl,
               calib_dict = Map.empty,
               attrs = [''spectrograph'' \<mapsto> PyStr (instrume r),
                        ''det'' \<mapsto> PyNone, ''sci_ID'' \<mapsto> PyNone,
                        ''settings'' \<mapsto> PyNone, ''setup'' \<mapsto> PyNone,
                        ''msarc'' \<mapsto> PyNone, ''msbias'' \<mapsto> PyNone, ''mbpm'' \<mapsto> PyNone,
                        ''pixlocn'' \<mapsto> PyNone, ''tslits_dict'' \<mapsto> PyNone,
                        ''maskslits'' \<mapsto> PyNone, ''wavecalib'' \<mapsto> PyNone],
               trace = []\<rparr>)"

text \<open>
  \<^verbatim>\<open>Calibrations.set(setup, det, sci_ID, settings)\<close>, with the scope typed as the
  spec's ScopeKey: a string and two integers. The internals are not reset: the method
  only reports that work through \<^verbatim>\<open>msgs.work\<close>.
\<close>

definition set_scope :: "string \<Rightarrow> int \<Rightarrow> int \<Rightarrow> pyval \<Rightarrow> unit action" where
  "set_scope setup det sci_ID settings =
     seq (setattr ''setup'' (PyStr setup)) (\<lambda>_.
     seq (setattr ''det'' (PyNum det)) (\<lambda>_.
     seq (setattr ''sci_ID'' (PyNum sci_ID)) (\<lambda>_.
     seq (lift (copy_val settings)) (\<lambda>c.
     seq (setattr ''settings'' c) (\<lambda>_.
     seq (\<lambda>s. (Return (),
                if calib_dict s setup = None
                then s\<lparr>calib_dict := (calib_dict s)(setup \<mapsto> Map.empty)\<rparr> else s)) (\<lambda>_.
     msgs_work ''Reset all the internals to None''))))))"

section \<open>The state checks\<close>

text \<open>
  \<^verbatim>\<open>_chk_set(items)\<close>: the first item whose attribute is \<^verbatim>\<open>None\<close> is a fatal error.
\<close>

fun chk_set :: "string list \<Rightarrow> unit action" where
  "chk_set [] s = (Return (), s)"
| "chk_set (item # items) s =
     (case getattr item s of
        (Raise e, s') \<Rightarrow> (Raise e, s')
      | (Return v, s') \<Rightarrow>
          if v = PyNone
          then msgs_error (''Use self.set to specify '' @ [CHR 0x27] @ item @ [CHR 0x27]
                           @ '' prior to generating the bias'') s'
          else chk_set items s')"

text \<open>
  \<^verbatim>\<open>_chk_objs(items)\<close>: at the first attribute that is \<^verbatim>\<open>None\<close>, two warnings (what
  is missing, which accessor makes it) and \<^verbatim>\<open>False\<close>; \<^verbatim>\<open>True\<close> when none is.
\<close>

definition producer :: "string \<Rightarrow> string" where
  "producer obj =
     (if obj \<in> set [''tslits_dict'', ''maskslits''] then ''Use get_slits''
      else ''Use get_'' @ (if take 2 obj = ''ms'' then drop 2 obj else obj))"

fun chk_objs :: "string list \<Rightarrow> bool action" where
  "chk_objs [] s = (Return True, s)"
| "chk_objs (obj # items) s =
     (case getattr obj s of
        (Raise e, s') \<Rightarrow> (Raise e, s')
      | (Return v, s') \<Rightarrow>
          if v = PyNone
          then seq (msgs_warn (''You need to generate '' @ obj
                               @ '' prior to wavelength calibration..'')) (\<lambda>_.
               seq (msgs_warn (producer obj)) (\<lambda>_.
               ret False)) s'
          else chk_objs items s')"

section \<open>The accessors\<close>

text \<open>
  \<^verbatim>\<open>get_bias()\<close>. On a miss the method returns the frame from inside the
  \<^verbatim>\<open>else\<close> branch: neither \<^verbatim>\<open>self.msbias\<close> nor the bucket is assigned (the
  assignment to the bucket is inside the string literal that follows the
  \<^verbatim>\<open>return\<close>).
\<close>

definition get_bias :: "world \<Rightarrow> pyval action" where
  "get_bias W =
     seq (chk_set [''setup'', ''det'', ''sci_ID'', ''settings'']) (\<lambda>_.
     seq (in_bucket ''bias'') (\<lambda>hit.
     if hit then
       seq (cached ''bias'') (\<lambda>v.
       seq (setattr ''msbias'' v) (\<lambda>_.
       getattr ''msbias''))
     else
       seq (getattr ''settings'') (\<lambda>st.
       seq (getattr ''setup'') (\<lambda>su.
       seq (getattr ''det'') (\<lambda>d.
       seq get_fitstbl (\<lambda>tbl.
       seq (getattr ''sci_ID'') (\<lambda>sci.
       seq (call W ''BiasFrame'' [st, su, d, tbl, sci]) (\<lambda>bf.
       seq (setattr ''biasFrame'' bf) (\<lambda>_.
       seq (call W ''BiasFrame.master'' [bf]) (\<lambda>msbias.
       if msbias = PyNone then
         seq (call W ''BiasFrame.build_image'' [bf]) (\<lambda>built.
         seq (call W ''BiasFrame.save_master'' [bf, built]) (\<lambda>_.
         ret built))
       else ret msbias))))))))))"

text \<open>
  \<^verbatim>\<open>get_arc(bias=None)\<close>. As in \<^verbatim>\<open>get_bias\<close>, the \<^verbatim>\<open>return\<close> inside the
  \<^verbatim>\<open>else\<close> branch comes before the assignment to the bucket.
\<close>

definition get_arc :: "world \<Rightarrow> pyval \<Rightarrow> pyval action" where
  "get_arc W bias =
     seq (if bias \<noteq> PyNone then setattr ''msbias'' bias else ret ()) (\<lambda>_.
     seq (getattr ''msbias'') (\<lambda>b.
     seq (if b = PyNone then msgs_error ''msbias needs to be set prior to arc''
          else ret ()) (\<lambda>_.
     seq (chk_set [''setup'', ''det'', ''sci_ID'', ''settings'']) (\<lambda>_.
     seq (in_bucket ''arc'') (\<lambda>hit.
     if hit then
       seq (cached ''arc'') (\<lambda>v.
       seq (setattr ''msarc'' v) (\<lambda>_.
       getattr ''msarc''))
     else
       seq instrume0 (\<lambda>spec.
       seq (getattr ''settings'') (\<lambda>st.
       seq (getattr ''det'') (\<lambda>d.
       seq (getattr ''setup'') (\<lambda>su.
       seq (getattr ''sci_ID'') (\<lambda>sci.
       seq (getattr ''msbias'') (\<lambda>msb.
       seq get_fitstbl (\<lambda>tbl.
       seq (call W ''ArcImage'' [PyTuple [], spec, st, d, su, sci, msb, tbl]) (\<lambda>ai.
       seq (setattr ''arcImage'' ai) (\<lambda>_.
       seq (call W ''ArcImage.master'' [ai]) (\<lambda>m.
       seq (setattr ''msarc'' m) (\<lambda>_.
       seq (if m = PyNone then
              seq (call W ''ArcImage.frametype'' [ai]) (\<lambda>ft.
              seq (lift (fmt_s ft)) (\<lambda>f.
              seq (msgs_info (''Preparing a master '' @ f @ '' frame'')) (\<lambda>_.
              seq (call W ''ArcImage.build_image'' [ai]) (\<lambda>built.
              seq (setattr ''msarc'' built) (\<lambda>_.
              seq (call W ''ArcImage.save_master'' [ai, built]) (\<lambda>_.
              ret ()))))))
            else ret ()) (\<lambda>_.
       getattr ''msarc'')))))))))))))))))"

text \<open>\<^verbatim>\<open>get_bpm(arc=None, bias=None)\<close>.\<close>

definition get_bpm :: "world \<Rightarrow> pyval \<Rightarrow> pyval \<Rightarrow> pyval action" where
  "get_bpm W arc bias =
     seq (if arc \<noteq> PyNone then setattr ''msarc'' arc else ret ()) (\<lambda>_.
     seq (if bias \<noteq> PyNone then setattr ''msbias'' bias else ret ()) (\<lambda>_.
     seq (chk_set [''det'', ''settings'', ''sci_ID'']) (\<lambda>_.
     seq (in_bucket ''bpm'') (\<lambda>hit.
     seq (if hit then
            seq (cached ''bpm'') (\<lambda>v. setattr ''msbpm'' v)
          else
            seq (getattr ''sci_ID'') (\<lambda>sci.
            seq (scidx_binning sci) (\<lambda>bin.
            seq (getattr ''spectrograph'') (\<lambda>spec.
            seq (getattr ''settings'') (\<lambda>st.
            seq (getattr ''det'') (\<lambda>d.
            seq (getattr ''msarc'') (\<lambda>a.
            seq (lift (shape a)) (\<lambda>sh.
            seq (setting [''reduce'', ''badpix'']) (\<lambda>badpix.
            seq (getattr ''msbias'') (\<lambda>msb.
            seq (call W ''BPMImage'' [spec, st, d, shape_val sh, bin, badpix, msb]) (\<lambda>bi.
            seq (call W ''BPMImage.build'' [bi]) (\<lambda>bpm.
            seq (setattr ''msbpm'' bpm) (\<lambda>_.
            store ''bpm'' bpm))))))))))))) (\<lambda>_.
     getattr ''msbpm'')))))"

text \<open>\<^verbatim>\<open>get_pixlocn(arc=None)\<close>.\<close>

definition get_pixlocn :: "world \<Rightarrow> pyval \<Rightarrow> pyval action" where
  "get_pixlocn W arc =
     seq (if arc \<noteq> PyNone then setattr ''msarc'' arc else ret ()) (\<lambda>_.
     seq (chk_set [''settings'']) (\<lambda>_.
     seq (setting [''detector'', ''xgap'']) (\<lambda>xgap.
     seq (setting [''detector'', ''ygap'']) (\<lambda>ygap.
     seq (setting [''detector'', ''ysize'']) (\<lambda>ysize.
     seq (getattr ''msarc'') (\<lambda>a.
     seq (lift (shape a)) (\<lambda>sh.
     seq (call W ''arpixels.core_gen_pixloc'' [shape_val sh, xgap, ygap, ysize]) (\<lambda>p.
     seq (setattr ''pixlocn'' p) (\<lambda>_.
     getattr ''pixlocn'')))))))))"

text \<open>
  \<^verbatim>\<open>full_calibrate()\<close>. The last statement calls \<^verbatim>\<open>self.make_pixlocn\<close>; the class
  defines \<^verbatim>\<open>get_pixlocn\<close> and nothing named \<^verbatim>\<open>make_pixlocn\<close>, and no statement
  assigns such an attribute, so looking the name up raises \<^verbatim>\<open>AttributeError\<close> before
  anything is called.
\<close>

definition full_calibrate :: "world \<Rightarrow> unit action" where
  "full_calibrate W =
     seq (get_bias W) (\<lambda>b.
     seq (setattr ''msbias'' b) (\<lambda>_.
     seq (getattr ''msbias'') (\<lambda>b1.
     seq (get_arc W b1) (\<lambda>a.
     seq (setattr ''msarc'' a) (\<lambda>_.
     seq (getattr ''msarc'') (\<lambda>a1.
     seq (getattr ''msbias'') (\<lambda>b2.
     seq (get_bpm W a1 b2) (\<lambda>m.
     seq (setattr ''msbpm'' m) (\<lambda>_.
     raise (AttributeError ''make_pixlocn''))))))))))"

text \<open>
  \<^verbatim>\<open>self.maskslits += self.<name>\<close>: the merge of a stage mask into the accumulated
  mask.
\<close>

definition mask_me :: "string \<Rightarrow> unit action" where
  "mask_me name =
     seq (getattr ''maskslits'') (\<lambda>m.
     seq (getattr name) (\<lambda>w.
     seq (lift (iadd m w)) (\<lambda>r.
     setattr ''maskslits'' r)))"

text \<open>
  \<^verbatim>\<open>get_slits(datasec_img)\<close>. The two statements under \<^verbatim>\<open># Initialize maskslits\<close>
  follow the \<^verbatim>\<open>if\<close>/\<^verbatim>\<open>else\<close>, so they run on a hit as on a miss.
\<close>

definition get_slits :: "world \<Rightarrow> pyval \<Rightarrow> pyval action" where
  "get_slits W datasec_img =
     seq (chk_objs [''pixlocn'']) (\<lambda>ok.
     if \<not> ok then ret PyNone
     else
     seq (chk_set [''det'', ''settings'', ''setup'', ''sci_ID'']) (\<lambda>_.
     seq (in_bucket ''trace'') (\<lambda>hit.
     seq (if hit then
            seq (cached ''trace'') (\<lambda>v. setattr ''tslits_dict'' v)
          else
            seq (getattr ''pixlocn'') (\<lambda>pix.
            seq (getattr ''settings'') (\<lambda>st.
            seq (getattr ''det'') (\<lambda>d.
            seq (getattr ''setup'') (\<lambda>su.
            seq (getattr ''msbpm'') (\<lambda>bpm.
            seq (call W ''TraceSlits'' [PyNone, pix, st, d, su, bpm]) (\<lambda>ts.
            seq (setattr ''traceSlits'' ts) (\<lambda>_.
            seq (call W ''TraceSlits.master'' [ts]) (\<lambda>m.
            seq (lift (truthy m)) (\<lambda>loaded.
            seq (if \<not> loaded then
                   seq get_fitstbl (\<lambda>tbl.
                   seq (getattr ''sci_ID'') (\<lambda>sci.
                   seq (call W ''arsort.list_of_files'' [tbl, PyStr ''trace'', sci]) (\<lambda>files.
                   seq (getattr ''spectrograph'') (\<lambda>spec.
                   seq (getattr ''settings'') (\<lambda>st1.
                   seq (getattr ''det'') (\<lambda>d1.
                   seq (call W ''TraceImage'' [files, spec, st1, d1, datasec_img]) (\<lambda>ti.
                   seq (getattr ''msbias'') (\<lambda>msb.
                   seq (setting [''reduce'', ''trim'']) (\<lambda>trim.
                   seq (call W ''TraceImage.process'' [ti, msb, trim, PyBool True]) (\<lambda>mstrace.
                   seq (call W ''TraceSlits.mstrace='' [ts, mstrace]) (\<lambda>_.
                   seq (call W ''TraceSlits.make_binarr'' [ts]) (\<lambda>_.
                   seq (call W ''TraceSlits.run'' [ts, PyBool True]) (\<lambda>_.
                   seq (call W ''TraceSlits._qa'' [ts]) (\<lambda>_.
                   seq (call W ''TraceSlits.save_master'' [ts]) (\<lambda>_.
                   ret ())))))))))))))))
                 else ret ()) (\<lambda>_.
            seq (call W ''TraceSlits._fill_tslits_dict'' [ts]) (\<lambda>td.
            seq (setattr ''tslits_dict'' td) (\<lambda>_.
            store ''trace'' td))))))))))))) (\<lambda>_.
     seq (getattr ''tslits_dict'') (\<lambda>td.
     seq (lift (getitem td ''lcen'')) (\<lambda>lcen.
     seq (lift (shape lcen)) (\<lambda>sh.
     seq (lift (index sh 1)) (\<lambda>nslits.
     seq (setattr ''maskslits'' (BoolArr (np_zeros nslits))) (\<lambda>_.
     seq (getattr ''tslits_dict'') (\<lambda>td1.
     seq (getattr ''maskslits'') (\<lambda>mask.
     ret (PyTuple [td1, mask]))))))))))))"

text \<open>\<^verbatim>\<open>get_wv_calib(arc=None)\<close>.\<close>

definition get_wv_calib :: "world \<Rightarrow> pyval \<Rightarrow> pyval action" where
  "get_wv_calib W arc =
     seq (if arc \<noteq> PyNone then setattr ''msarc'' arc else ret ()) (\<lambda>_.
     seq (chk_objs [''msarc'', ''tslits_dict'', ''pixlocn'']) (\<lambda>ok.
     if \<not> ok then ret PyNone
     else
     seq (chk_set [''det'', ''settings'', ''setup'', ''sci_ID'']) (\<lambda>_.
     seq (in_bucket ''wavecalib'') (\<lambda>hit.
     seq (if hit then
            seq (cached ''wavecalib'') (\<lambda>v.
            seq (setattr ''wv_calib'' v) (\<lambda>_.
            seq (cached ''wvmask'') (\<lambda>w.
            setattr ''wv_maskslits'' w)))
          else
            seq (setting [''reduce'', ''calibrate'', ''wavelength'']) (\<lambda>mode.
            if mode = PyStr ''pixel'' then
              seq (msgs_info ''A wavelength calibration will not be performed'') (\<lambda>_.
              seq (setattr ''wv_calib'' PyNone) (\<lambda>_.
              seq (getattr ''maskslits'') (\<lambda>m.
              setattr ''wv_maskslits'' (np_zeros_like m))))
            else
              seq (setting [''detector'', ''saturation'']) (\<lambda>sat.
              seq (setting [''detector'', ''nonlinear'']) (\<lambda>nl.
              seq (lift (py_mul sat nl)) (\<lambda>nonlinear.
              seq (setting [''arc'', ''calibrate'']) (\<lambda>ac.
              seq (getattr ''settings'') (\<lambda>st.
              seq (lift (setitem st ''calibrate'' ac)) (\<lambda>st1.
              seq (setattr ''settings'' st1) (\<lambda>_.
              seq (getattr ''msarc'') (\<lambda>a.
              seq (getattr ''spectrograph'') (\<lambda>spec.
              seq (getattr ''det'') (\<lambda>d.
              seq (getattr ''setup'') (\<lambda>su.
              seq get_fitstbl (\<lambda>tbl.
              seq (getattr ''sci_ID'') (\<lambda>sci.
              seq (call W ''WaveCalib'' [a, spec, st1, d, su, tbl, sci]) (\<lambda>wc.
              seq (setattr ''waveCalib'' wc) (\<lambda>_.
              seq (call W ''WaveCalib.master'' [wc]) (\<lambda>m.
              seq (setattr ''wv_calib'' m) (\<lambda>_.
              seq (getattr ''tslits_dict'') (\<lambda>td.
              seq (if m = PyNone then
                     seq (lift (getitem td ''lcen'')) (\<lambda>lcen.
                     seq (lift (getitem td ''rcen'')) (\<lambda>rcen.
                     seq (getattr ''pixlocn'') (\<lambda>pix.
                     seq (call W ''WaveCalib.run'' [wc, lcen, rcen, pix, nonlinear]) (\<lambda>r.
                     seq (lift (unpack 2 r)) (\<lambda>rs.
                     seq (setattr ''wv_calib'' (hd rs)) (\<lambda>_.
                     seq (call W ''WaveCalib.save_master'' [wc]) (\<lambda>_.
                     ret ())))))))
                   else
                     seq (call W ''WaveCalib.wv_calib='' [wc, m]) (\<lambda>_. ret ())) (\<lambda>_.
              seq (lift (getitem td ''lcen'')) (\<lambda>lcen.
              seq (lift (shape lcen)) (\<lambda>sh.
              seq (lift (index sh 1)) (\<lambda>nslits.
              seq (call W ''WaveCalib._make_maskslits'' [wc, PyNum (int nslits)]) (\<lambda>wm.
              seq (setattr ''wv_maskslits'' wm) (\<lambda>_.
              seq (getattr ''wv_calib'') (\<lambda>wv.
              seq (store ''wavecalib'' wv) (\<lambda>_.
              store ''wvmask'' wm)))))))))))))))))))))))))))) (\<lambda>_.
     seq (mask_me ''wv_maskslits'') (\<lambda>_.
     seq (getattr ''wv_calib'') (\<lambda>wv.
     seq (getattr ''maskslits'') (\<lambda>mask.
     ret (PyTuple [wv, mask])))))))))"

text \<open>\<^verbatim>\<open>get_tilts(arc=None)\<close>; the argument is not used.\<close>

definition get_tilts :: "world \<Rightarrow> pyval \<Rightarrow> pyval action" where
  "get_tilts W arc =
     seq (chk_objs [''msarc'', ''tslits_dict'', ''pixlocn'', ''wv_calib'', ''maskslits'']) (\<lambda>ok.
     if \<not> ok then ret PyNone
     else
     seq (chk_set [''det'', ''settings'', ''setup'', ''sci_ID'']) (\<lambda>_.
     seq (in_bucket ''tilts'') (\<lambda>hit.
     seq (if hit then
            seq (cached ''tilts'') (\<lambda>v.
            seq (setattr ''mstilts'' v) (\<lambda>_.
            seq (cached ''wtmask'') (\<lambda>w.
            setattr ''wt_maskslits'' w)))
          else
            seq (setting [''trace'', ''slits'', ''tilts'']) (\<lambda>t.
            seq (lift (copy_val t)) (\<lambda>t0.
            seq (setting [''trace'', ''slits'', ''function'']) (\<lambda>f.
            seq (lift (setitem t0 ''function'' f)) (\<lambda>t1.
            seq (lift (copy_val t1)) (\<lambda>t2.
            seq (getattr ''settings'') (\<lambda>st.
            seq (lift (setitem st ''tilts'' t2)) (\<lambda>st1.
            seq (setattr ''settings'' st1) (\<lambda>_.
            seq (getattr ''msarc'') (\<lambda>a.
            seq (getattr ''det'') (\<lambda>d.
            seq (getattr ''setup'') (\<lambda>su.
            seq (getattr ''tslits_dict'') (\<lambda>td.
            seq (setting [''detector'']) (\<lambda>sdet.
            seq (getattr ''pixlocn'') (\<lambda>pix.
            seq (call W ''WaveTilts'' [a, st1, d, su, td, sdet, pix]) (\<lambda>wt.
            seq (setattr ''waveTilts'' wt) (\<lambda>_.
            seq (call W ''WaveTilts.master'' [wt]) (\<lambda>m.
            seq (setattr ''mstilts'' m) (\<lambda>_.
            seq (if m = PyNone then
                   seq (getattr ''maskslits'') (\<lambda>mask.
                   seq (getattr ''wv_calib'') (\<lambda>wv.
                   seq (call W ''WaveTilts.run'' [wt, mask, wv]) (\<lambda>r.
                   seq (lift (unpack 2 r)) (\<lambda>rs.
                   seq (setattr ''mstilts'' (hd rs)) (\<lambda>_.
                   seq (setattr ''wt_maskslits'' (hd (tl rs))) (\<lambda>_.
                   seq (call W ''WaveTilts.save_master'' [wt]) (\<lambda>_.
                   ret ())))))))
                 else
                   seq (getattr ''maskslits'') (\<lambda>mask.
                   setattr ''wt_maskslits'' (np_zeros_like mask))) (\<lambda>_.
            seq (getattr ''mstilts'') (\<lambda>tilts.
            seq (store ''tilts'' tilts) (\<lambda>_.
            seq (getattr ''wt_maskslits'') (\<lambda>wm.
            store ''wtmask'' wm))))))))))))))))))))))) (\<lambda>_.
     seq (mask_me ''wt_maskslits'') (\<lambda>_.
     seq (getattr ''mstilts'') (\<lambda>tilts.
     seq (getattr ''maskslits'') (\<lambda>mask.
     ret (PyTuple [tilts, mask]))))))))"

text \<open>
  \<^verbatim>\<open>get_pixflatnrm(datasec_img)\<close>. The flag
  \<^verbatim>\<open>settings['reduce']['flatfield']['perform']\<close> is read before any check.
\<close>

definition get_pixflatnrm :: "world \<Rightarrow> pyval \<Rightarrow> pyval action" where
  "get_pixflatnrm W datasec_img =
     seq (setting [''reduce'', ''flatfield'', ''perform'']) (\<lambda>flag.
     seq (lift (truthy flag)) (\<lambda>perform.
     if perform then
       seq (chk_objs [''tslits_dict'', ''mstilts'']) (\<lambda>ok.
       if \<not> ok then ret PyNone
       else
       seq (chk_set [''det'', ''settings'', ''sci_ID'', ''setup'']) (\<lambda>_.
       seq (in_bucket ''normpixelflat'') (\<lambda>hit.
       seq (if hit then
              seq (cached ''normpixelflat'') (\<lambda>v.
              seq (setattr ''mspixflatnrm'' v) (\<lambda>_.
              seq (cached ''slitprof'') (\<lambda>p.
              setattr ''slitprof'' p)))
            else
              seq (setting [''reduce'', ''flatfield'']) (\<lambda>ff.
              seq (lift (copy_val ff)) (\<lambda>ff1.
              seq (setting [''reduce'', ''slitprofile'']) (\<lambda>sp.
              seq (lift (copy_val sp)) (\<lambda>sp1.
              seq (setting [''pixelflat'', ''combine'']) (\<lambda>cb.
              seq (lift (copy_val cb)) (\<lambda>cb1.
              seq (setting [''masters'']) (\<lambda>ma.
              seq (lift (copy_val ma)) (\<lambda>ma1.
              seq (setting [''detector'']) (\<lambda>sdet.
              seq (ret (PyDict [(''flatfield'', ff1), (''slitprofile'', sp1),
                                (''combine'', cb1), (''masters'', ma1),
                                (''detector'', sdet)])) (\<lambda>flat_settings.
              seq get_fitstbl (\<lambda>tbl.
              seq (getattr ''sci_ID'') (\<lambda>sci.
              seq (call W ''arsort.list_of_files'' [tbl, PyStr ''pixelflat'', sci]) (\<lambda>files.
              seq (getattr ''msbias'') (\<lambda>msb.
              seq (getattr ''spectrograph'') (\<lambda>spec.
              seq (getattr ''tslits_dict'') (\<lambda>td.
              seq (getattr ''mstilts'') (\<lambda>tilts.
              seq (getattr ''det'') (\<lambda>d.
              seq (getattr ''setup'') (\<lambda>su.
              seq (call W ''FlatField''
                     [files, msb, spec, flat_settings, td, tilts, d, su, datasec_img]) (\<lambda>fl.
              seq (setattr ''flatField'' fl) (\<lambda>_.
              seq (call W ''FlatField.master'' [fl]) (\<lambda>m.
              seq (setattr ''mspixflatnrm'' m) (\<lambda>_.
              seq (setattr ''slitprof'' PyNone) (\<lambda>_.
              seq (lift (getpath flat_settings [''flatfield'', ''useframe''])) (\<lambda>useframe.
              seq (if useframe \<noteq> PyStr ''pixelflat'' \<and> useframe \<noteq> PyStr ''trace'' then
                     seq (lift (getpath flat_settings [''masters'', ''directory''])) (\<lambda>dir.
                     seq (call W ''armasters.user_master_name'' [dir, useframe]) (\<lambda>name.
                     seq (call W ''armasters._load'' [name, d, PyNone, PyBool True]) (\<lambda>r.
                     seq (lift (unpack 3 r)) (\<lambda>rs.
                     seq (setattr ''mspixflatnrm'' (hd rs)) (\<lambda>_.
                     setattr ''slitprof'' (np_ones_like (hd rs)))))))
                   else ret ()) (\<lambda>_.
              seq (getattr ''mspixflatnrm'') (\<lambda>flat.
              seq (if flat = PyNone then
                     seq (call W ''FlatField.run'' [fl, PyBool False]) (\<lambda>r.
                     seq (lift (unpack 2 r)) (\<lambda>rs.
                     seq (setattr ''mspixflatnrm'' (hd rs)) (\<lambda>_.
                     seq (setattr ''slitprof'' (hd (tl rs))) (\<lambda>_.
                     seq (call W ''FlatField.save_master'' [fl, hd rs, files]) (\<lambda>_.
                     seq (lift (getpath flat_settings [''masters'', ''directory''])) (\<lambda>dir.
                     seq (call W ''armasters.master_name'' [PyStr ''slitprof'', su, dir]) (\<lambda>out.
                     seq (call W ''FlatField.save_master'' [fl, hd (tl rs), files, out]) (\<lambda>_.
                     ret ()))))))))
                   else
                     seq (getattr ''slitprof'') (\<lambda>p.
                     if p = PyNone then
                       seq (call W ''FlatField.load_master_slitprofile'' [fl]) (\<lambda>r.
                       seq (lift (unpack 3 r)) (\<lambda>rs.
                       setattr ''slitprof'' (hd rs)))
                     else ret ())) (\<lambda>_.
              seq (getattr ''mspixflatnrm'') (\<lambda>flat1.
              seq (store ''normpixelflat'' flat1) (\<lambda>_.
              seq (getattr ''slitprof'') (\<lambda>p1.
              store ''slitprof'' p1)))))))))))))))))))))))))))))))) (\<lambda>_.
       seq (getattr ''mspixflatnrm'') (\<lambda>flat.
       seq (getattr ''slitprof'') (\<lambda>p.
       ret (PyTuple [flat, p])))))))
     else
       seq (setattr ''mspixflatnrm'' PyNone) (\<lambda>_.
       seq (setattr ''slitprof'' PyNone) (\<lambda>_.
       seq (getattr ''mspixflatnrm'') (\<lambda>flat.
       seq (getattr ''slitprof'') (\<lambda>p.
       ret (PyTuple [flat, p])))))))"

section \<open>A concrete run\<close>

text \<open>
  One exposure table, one settings bundle and one world, used to evaluate the class on
  concrete inputs. The world follows the spec's scenario: \<^verbatim>\<open>BiasFrame.master\<close> finds
  nothing until a bias frame has been saved, and the saved frame afterwards.
\<close>

definition demo_table :: "fitsrow list" where
  "demo_table =
     [\<lparr>instrume = ''kast'', row_sci_ID = 7, science = True, binning = PyStr ''1x1''\<rparr>]"

definition demo_settings :: pyval where
  "demo_settings =
     PyDict [(''reduce'', PyDict [(''badpix'', PyBool False),
                (''flatfield'', PyDict [(''perform'', PyBool False)]),
                (''calibrate'', PyDict [(''wavelength'', PyStr ''arc'')])]),
             (''detector'', PyDict [(''xgap'', PyNum 0), (''ygap'', PyNum 0),
                (''ysize'', PyNum 1), (''saturation'', PyNum 65535),
                (''nonlinear'', PyNum 1)]),
             (''arc'', PyDict [(''calibrate'', PyDict [])])]"

definition bias1 :: pyval where
  "bias1 = NdArray [2, 2] [1, 1, 1, 1]"

definition arc1 :: pyval where
  "arc1 = NdArray [2, 2] [5, 5, 5, 5]"

definition slits1 :: pyval where
  "slits1 = PyDict [(''lcen'', NdArray [2, 2] [0, 1, 0, 1]),
                    (''rcen'', NdArray [2, 2] [1, 2, 1, 2])]"

definition demo_world :: world where
  "demo_world tr name args =
     (if name = ''BiasFrame'' then Inr (PyObj ''BiasFrame'' 1)
      else if name = ''BiasFrame.master'' then
        (if Call ''BiasFrame.save_master'' [PyObj ''BiasFrame'' 1, bias1] \<in> set tr
         then Inr bias1 else Inr PyNone)
      else if name = ''BiasFrame.build_image'' then Inr bias1
      else if name = ''ArcImage'' then Inr (PyObj ''ArcImage'' 2)
      else if name = ''ArcImage.frametype'' then Inr (PyStr ''arc'')
      else if name = ''ArcImage.build_image'' then Inr arc1
      else if name = ''BPMImage'' then Inr (PyObj ''BPMImage'' 3)
      else if name = ''BPMImage.build'' then Inr (NdArray [2, 2] [0, 0, 0, 0])
      else if name = ''arpixels.core_gen_pixloc'' then Inr (NdArray [2, 2, 4] [])
      else if name = ''TraceSlits'' then Inr (PyObj ''TraceSlits'' 4)
      else if name = ''TraceSlits.master'' then Inr (PyBool True)
      else if name = ''TraceSlits._fill_tslits_dict'' then Inr slits1
      else if name = ''WaveCalib'' then Inr (PyObj ''WaveCalib'' 5)
      else if name = ''WaveCalib.master'' then Inr (PyDict [(''0'', PyNum 1)])
      else if name = ''WaveCalib._make_maskslits'' then Inr (BoolArr [True, False])
      else Inr PyNone)"

text \<open>The same world, except that the wavelength stage reports a mask of length one.\<close>

definition short_mask_world :: world where
  "short_mask_world tr name args =
     (if name = ''WaveCalib._make_maskslits'' then Inr (BoolArr [True])
      else demo_world tr name args)"

text \<open>The object after \<^verbatim>\<open>Calibrations(fitstbl)\<close>, and after \<^verbatim>\<open>set\<close> on it.\<close>

definition fresh :: "fitsrow list \<Rightarrow> calibrations" where
  "fresh tbl =
     (case init tbl of
        Inr s \<Rightarrow> s
      | Inl e \<Rightarrow> \<lparr>fitstbl = tbl, calib_dict = Map.empty, attrs = Map.empty, trace = []\<rparr>)"

definition configured :: "string \<Rightarrow> calibrations" where
  "configured setup = snd (set_scope setup 2 7 demo_settings (fresh demo_table))"

text \<open>Running one call after another on the same object.\<close>

definition after :: "'a action \<Rightarrow> calibrations \<Rightarrow> calibrations" where
  "after m s = snd (m s)"

text \<open>
  The object after bias, arc, bad-pixel mask, pixel locations and slits have been
  requested in turn under \<open>setupX\<close>.
\<close>

definition traced :: "world \<Rightarrow> calibrations" where
  "traced W =
     after (get_slits W PyNone)
       (after (get_pixlocn W PyNone)
          (after (get_bpm W arc1 bias1) (configured ''setupX'')))"

text \<open>The collaborator calls recorded in a trace, by name.\<close>

fun call_names :: "event list \<Rightarrow> string list" where
  "call_names [] = []"
| "call_names (Call name args # evs) = name # call_names evs"
| "call_names (ev # evs) = call_names evs"

text \<open>What a call added to the trace.\<close>

definition added :: "calibrations \<Rightarrow> calibrations \<Rightarrow> event list" where
  "added s s' = drop (length (trace s)) (trace s')"

section \<open>Properties\<close>

subsection \<open>Reads of the settings tree\<close>

text \<open>
  Claim C10. A lookup \<open>d[k]\<close> in a \<^verbatim>\<open>NestedDict\<close> never raises \<^verbatim>\<open>KeyError\<close>: it
  returns a value, and afterwards \<open>k\<close> is present in \<open>d\<close> with that value. When \<open>k\<close>
  was present the dictionary is unchanged; when it was absent, the value is a fresh
  empty \<^verbatim>\<open>NestedDict\<close>, inserted under \<open>k\<close>: the read has changed the tree.
\<close>

theorem nested_getitem_total:
  "\<exists>v d'. nested_getitem d k = Inr (v, d') \<and> map_of d' k = Some v \<and>
     (if k \<in> fst ` set d then d' = d else v = Nested [] \<and> d' = d @ [(k, Nested [])])"
proof (cases "map_of d k")
  case None
  then have "k \<notin> fst ` set d"
    by (simp add: map_of_eq_None_iff)
  with None show ?thesis
    by (simp add: nested_getitem_def dict_getitem_def dict_setitem_def map_add_def
        split: option.splits)
next
  case (Some w)
  then have "k \<in> fst ` set d"
    by (metis map_of_eq_None_iff option.distinct(1))
  with Some show ?thesis
    by (simp add: nested_getitem_def dict_getitem_def)
qed

end
